theory Spec2Isabelle
  imports Complex_Main
begin

section \<open>Numbers, times and strings\<close>

text \<open>
  The numbers of \<^verbatim>\<open>calculatePasses\<close> (elevations, azimuths, durations) are modelled
  as reals: the finite doubles of the program with exact arithmetic. A \<^verbatim>\<open>Date\<close> is its
  number of milliseconds since the epoch, an \<open>int\<close>; \<^verbatim>\<open>toISOString\<close> followed by
  \<^verbatim>\<open>new Date(..)\<close> gives the same number of milliseconds back, so the ISO strings of a
  pass are modelled by the instants they denote.
\<close>

type_synonym time = int

text \<open>
  The remainder operator \<^verbatim>\<open>%\<close> of JavaScript truncates the quotient towards zero,
  so the result has the sign of the dividend.
\<close>

definition js_trunc :: "real \<Rightarrow> int" where
  "js_trunc q = (if q < 0 then \<lceil>q\<rceil> else \<lfloor>q\<rfloor>)"

definition js_rem :: "real \<Rightarrow> real \<Rightarrow> real" where
  "js_rem x y = x - y * of_int (js_trunc (x / y))"

text \<open>\<^verbatim>\<open>m || 0\<close> on a number: \<open>0\<close> is the only falsy real.\<close>

definition js_or :: "real \<Rightarrow> real \<Rightarrow> real" where
  "js_or m d = (if m = 0 then d else m)"

text \<open>
  A string of the program is the list of its UTF-16 code units; \<open>str\<close> gives the
  string of an ASCII literal.
\<close>

type_synonym jsstring = "nat list"

definition str :: "string \<Rightarrow> jsstring" where
  "str s = map of_char s"

section \<open>The clock of the host\<close>

text \<open>
  \<^verbatim>\<open>date.setMinutes(date.getMinutes() + 1)\<close> works on local time. The time zone of
  the host is its function \<open>LocalTZA(t, isUTC)\<close> of ECMAScript: the offset of local
  time from UTC in milliseconds, at the UTC instant \<open>t\<close> when \<open>isUTC\<close> holds and at
  the local time \<open>t\<close> otherwise (where a local time is repeated or skipped at a
  transition, with the offset before the transition).
\<close>

record timezone =
  localTZA :: "time \<Rightarrow> bool \<Rightarrow> int"

definition localTime :: "timezone \<Rightarrow> time \<Rightarrow> time" where
  "localTime tz t = t + localTZA tz t True"

definition utcOfLocal :: "timezone \<Rightarrow> time \<Rightarrow> time" where
  "utcOfLocal tz t = t - localTZA tz t False"

text \<open>
  The update expression of line 86: the local time of \<open>date\<close> with its minute field
  raised by one (a minute of 60 carries into the hour, so 60000 ms are added), read
  back as a UTC instant.
\<close>

definition nextMinute :: "timezone \<Rightarrow> time \<Rightarrow> time" where
  "nextMinute tz date = utcOfLocal tz (localTime tz date + 60000)"

section \<open>The satellite library\<close>

text \<open>
  What the \<^verbatim>\<open>try\<close> block of \<^verbatim>\<open>fetchTLE\<close> can throw: \<^verbatim>\<open>fetch\<close> rejecting (a network
  error), \<^verbatim>\<open>response.text()\<close> rejecting (a body that cannot be read), and the
  \<^verbatim>\<open>TypeError\<close> of \<^verbatim>\<open>.trim()\<close> on a line that is \<^verbatim>\<open>undefined\<close>.
\<close>

datatype js_exn = FetchRejected jsstring | TextRejected jsstring | TypeErrorUndefined

text \<open>
  The errors that reach the handler: \<^verbatim>\<open>new Error(`Failed to fetch TLE data: ${error}`)\<close>
  with the error it quotes, and the \<^verbatim>\<open>RangeError\<close> of the library.
\<close>

datatype js_error = FailedToFetch js_exn | RangeError

text \<open>
  Modelled from the spec: the library \<^verbatim>\<open>satellite.js\<close> is an external collaborator,
  not part of the repository. Its propagator and frame conversions are parameters of
  the model (the record \<open>satlib\<close>); its conversions to degrees multiply by
  \<open>180 / \<pi>\<close>. As the library has them, \<^verbatim>\<open>degreesLat\<close> and \<^verbatim>\<open>degreesLong\<close> first
  check their argument and throw a \<^verbatim>\<open>RangeError\<close> for an angle outside
  \<open>[-\<pi>/2, \<pi>/2]\<close> and outside \<open>[-\<pi>, \<pi>]\<close>; \<^verbatim>\<open>degreesToRadians\<close> checks nothing.
\<close>

definition radiansToDegrees :: "real \<Rightarrow> real" where
  "radiansToDegrees r = r * (180 / pi)"

definition degreesToRadians :: "real \<Rightarrow> real" where
  "degreesToRadians d = d * (pi / 180)"

definition degreesLat :: "real \<Rightarrow> js_error + real" where
  "degreesLat r =
     (if r < - (pi / 2) \<or> r > pi / 2 then Inl RangeError else Inr (radiansToDegrees r))"

definition degreesLong :: "real \<Rightarrow> js_error + real" where
  "degreesLong r =
     (if r < - pi \<or> r > pi then Inl RangeError else Inr (radiansToDegrees r))"

type_synonym position = "real \<times> real \<times> real"

record look_angles =
  elevation :: real
  azimuth :: real

text \<open>
  A coordinate of the observer comes from \<^verbatim>\<open>parseFloat\<close>, so it may be \<^verbatim>\<open>NaN\<close> or
  infinite.
\<close>

datatype jsnum = NaN | NegInf | Num real | PosInf

record Observer =
  latitude :: jsnum
  longitude :: jsnum
  height :: jsnum

record 'sat satlib =
  twoline2satrec :: "jsstring \<Rightarrow> jsstring \<Rightarrow> 'sat option"
  propagate :: "'sat \<Rightarrow> time \<Rightarrow> position option"
  gstime :: "time \<Rightarrow> real"
  eciToEcf :: "position \<Rightarrow> real \<Rightarrow> position"
  ecfToLookAngles :: "Observer \<Rightarrow> position \<Rightarrow> look_angles"

section \<open>calculatePasses\<close>

record SatellitePass =
  startTime :: time
  endTime :: time
  maxElevation :: real
  startAz :: real
  endAz :: real
  duration :: real

text \<open>The fields that \<^verbatim>\<open>currentPass\<close> holds while a pass is open.\<close>

record PendingPass =
  pStartTime :: time
  pStartAz :: real
  pMaxElevation :: real

text \<open>
  Lines 99 to 101: the azimuth in degrees from the raw azimuth in radians, or the
  error that \<^verbatim>\<open>degreesLong\<close> throws.
\<close>

definition normalizeAzimuth :: "real \<Rightarrow> js_error + real" where
  "normalizeAzimuth rawAzimuth =
     (case degreesLong (js_rem (rawAzimuth + pi) (2 * pi) - pi) of
        Inl err \<Rightarrow> Inl err
      | Inr d \<Rightarrow> Inr (js_rem (d + 360) 360))"

text \<open>
  Lines 87 to 101: what one sample yields: \<open>None\<close> when the propagator gives no
  position (the \<^verbatim>\<open>continue\<close> of line 91), else the elevation and the azimuth in
  degrees, or the error thrown on the way.
\<close>

definition sampleAt ::
  "'sat satlib \<Rightarrow> 'sat \<Rightarrow> Observer \<Rightarrow> time \<Rightarrow> js_error + (real \<times> real) option" where
  "sampleAt lib satrec observer date =
     (case propagate lib satrec date of
        None \<Rightarrow> Inr None
      | Some pos \<Rightarrow>
          let gmst = gstime lib date;
              positionEcf = eciToEcf lib pos gmst;
              lookAngles = ecfToLookAngles lib observer positionEcf
          in (case degreesLat (elevation lookAngles) of
                Inl err \<Rightarrow> Inl err
              | Inr elev \<Rightarrow>
                  (case normalizeAzimuth (azimuth lookAngles) of
                     Inl err \<Rightarrow> Inl err
                   | Inr az \<Rightarrow> Inr (Some (elev, az)))))"

text \<open>Lines 115 to 119: the pass that closing \<^verbatim>\<open>currentPass\<close> at \<open>date\<close> appends.\<close>

definition closePass :: "PendingPass \<Rightarrow> time \<Rightarrow> real \<Rightarrow> SatellitePass" where
  "closePass cp date az =
     \<lparr> startTime = pStartTime cp, endTime = date, maxElevation = pMaxElevation cp,
       startAz = pStartAz cp, endAz = az,
       duration = (of_int date - of_int (pStartTime cp)) / 1000 \<rparr>"

type_synonym loop_state = "SatellitePass list \<times> PendingPass option"

text \<open>
  Lines 87 to 121: the state \<open>(passes, currentPass)\<close> after the sample at \<open>date\<close>, or
  the error thrown.
\<close>

definition loopBody ::
  "'sat satlib \<Rightarrow> 'sat \<Rightarrow> Observer \<Rightarrow> time \<Rightarrow> loop_state \<Rightarrow> js_error + loop_state" where
  "loopBody lib satrec observer date st =
     (case sampleAt lib satrec observer date of
        Inl err \<Rightarrow> Inl err
      | Inr None \<Rightarrow> Inr st
      | Inr (Some (elev, az)) \<Rightarrow>
          (case st of (passes, currentPass) \<Rightarrow>
             if elev > 10 then
               let cp = (case currentPass of
                           None \<Rightarrow> \<lparr> pStartTime = date, pStartAz = az, pMaxElevation = elev \<rparr>
                         | Some c \<Rightarrow> c);
                   cp' = (if elev > js_or (pMaxElevation cp) 0
                          then cp\<lparr> pMaxElevation := elev \<rparr> else cp)
               in Inr (passes, Some cp')
             else
               (case currentPass of
                  Some c \<Rightarrow> Inr (passes @ [closePass c date az], None)
                | None \<Rightarrow> Inr (passes, None))))"

text \<open>
  Line 86: the walk from \<open>date\<close> while \<open>date \<le> endT\<close>, on a host with the time zone
  \<open>tz\<close>. The result is \<open>None\<close> when the loop does not end, else the error thrown
  or the final state.
\<close>

partial_function (option) walk ::
  "timezone \<Rightarrow> 'sat satlib \<Rightarrow> 'sat \<Rightarrow> Observer \<Rightarrow> time \<Rightarrow> time \<Rightarrow> loop_state
     \<Rightarrow> (js_error + loop_state) option" where
  "walk tz lib satrec observer endT date st =
     (if date \<le> endT
      then (case loopBody lib satrec observer date st of
              Inl err \<Rightarrow> Some (Inl err)
            | Inr st' \<Rightarrow> walk tz lib satrec observer endT (nextMinute tz date) st')
      else Some (Inr st))"

definition calculatePasses ::
  "timezone \<Rightarrow> 'sat satlib \<Rightarrow> 'sat \<Rightarrow> Observer \<Rightarrow> time \<Rightarrow> time
     \<Rightarrow> (js_error + SatellitePass list) option" where
  "calculatePasses tz lib satrec observer startT endT =
     (case walk tz lib satrec observer endT startT ([], None) of
        None \<Rightarrow> None
      | Some (Inl err) \<Rightarrow> Some (Inl err)
      | Some (Inr (passes, currentPass)) \<Rightarrow> Some (Inr passes))"

section \<open>Strings\<close>

text \<open>
  The white space that \<^verbatim>\<open>trim\<close> strips: the code units of \<open>WhiteSpace\<close> and
  \<open>LineTerminator\<close> of ECMAScript.
\<close>

definition isWhiteSpace :: "nat \<Rightarrow> bool" where
  "isWhiteSpace c =
     (c \<in> set [0x09, 0x0A, 0x0B, 0x0C, 0x0D, 0x20, 0xA0, 0x1680, 0x2028, 0x2029, 0x202F,
                0x205F, 0x3000, 0xFEFF] \<or>
      (0x2000 \<le> c \<and> c \<le> 0x200A))"

definition trim :: "jsstring \<Rightarrow> jsstring" where
  "trim s = rev (dropWhile isWhiteSpace (rev (dropWhile isWhiteSpace s)))"

text \<open>\<^verbatim>\<open>data.split('\n')\<close>: the empty string gives one empty line.\<close>

fun splitLines :: "jsstring \<Rightarrow> jsstring list" where
  "splitLines [] = [[]]"
| "splitLines (c # cs) =
     (if c = 0x0A then [] # splitLines cs
      else (case splitLines cs of [] \<Rightarrow> [[c]] | l # ls \<Rightarrow> (c # l) # ls))"

text \<open>\<^verbatim>\<open>lines[k]\<close>: \<^verbatim>\<open>undefined\<close> (here \<open>None\<close>) beyond the end of the array.\<close>

definition lineAt :: "jsstring list \<Rightarrow> nat \<Rightarrow> jsstring option" where
  "lineAt ls k = (if k < length ls then Some (ls ! k) else None)"

text \<open>\<^verbatim>\<open>a < b\<close> and \<^verbatim>\<open>a > b\<close> against a finite bound: false when \<open>a\<close> is \<^verbatim>\<open>NaN\<close>.\<close>

fun jsLess :: "jsnum \<Rightarrow> real \<Rightarrow> bool" where
  "jsLess NaN b = False"
| "jsLess NegInf b = True"
| "jsLess (Num a) b = (a < b)"
| "jsLess PosInf b = False"

fun jsGreater :: "jsnum \<Rightarrow> real \<Rightarrow> bool" where
  "jsGreater NaN b = False"
| "jsGreater NegInf b = False"
| "jsGreater (Num a) b = (a > b)"
| "jsGreater PosInf b = True"

text \<open>Whether a number lies in the closed interval from \<open>lo\<close> to \<open>hi\<close>.\<close>

fun inInterval :: "jsnum \<Rightarrow> real \<Rightarrow> real \<Rightarrow> bool" where
  "inInterval (Num a) lo hi = (lo \<le> a \<and> a \<le> hi)"
| "inInterval v lo hi = False"

text \<open>\<^verbatim>\<open>Math.round\<close>: the nearest integer, a half rounded up.\<close>

definition mathRound :: "real \<Rightarrow> int" where
  "mathRound x = \<lfloor>x + 1 / 2\<rfloor>"

section \<open>fetchTLE\<close>

record TLEData =
  name :: jsstring
  line1 :: jsstring
  line2 :: jsstring

record CacheEntry =
  tle :: TLEData
  timestamp :: time

type_synonym tle_cache = "jsstring \<rightharpoonup> CacheEntry"

definition TLE_CACHE_DURATION :: int where
  "TLE_CACHE_DURATION = 24 * 60 * 60 * 1000"

text \<open>The remote source: for a URL, the text of the response or the rejection.\<close>

type_synonym remote = "jsstring \<Rightarrow> js_exn + jsstring"

definition tleUrl :: "jsstring \<Rightarrow> jsstring" where
  "tleUrl satelliteId =
     str ''https://celestrak.com/NORAD/elements/gp.php?CATNR='' @ satelliteId
       @ str ''&FORMAT=TLE''"

text \<open>Lines 52 to 58.\<close>

definition parseTLE :: "jsstring \<Rightarrow> js_exn + TLEData" where
  "parseTLE data =
     (let lines = splitLines data in
      case lineAt lines 0 of
        None \<Rightarrow> Inl TypeErrorUndefined
      | Some l0 \<Rightarrow>
          (case lineAt lines 1 of
             None \<Rightarrow> Inl TypeErrorUndefined
           | Some l1 \<Rightarrow>
               (case lineAt lines 2 of
                  None \<Rightarrow> Inl TypeErrorUndefined
                | Some l2 \<Rightarrow> Inr \<lparr> name = trim l0, line1 = trim l1, line2 = trim l2 \<rparr>)))"

text \<open>Lines 42 to 45: the element set of a fresh cache entry.\<close>

definition cacheHit :: "tle_cache \<Rightarrow> time \<Rightarrow> jsstring \<Rightarrow> TLEData option" where
  "cacheHit cache now satelliteId =
     (case cache satelliteId of
        None \<Rightarrow> None
      | Some cached \<Rightarrow>
          if now - timestamp cached < TLE_CACHE_DURATION then Some (tle cached) else None)"

text \<open>
  \<^verbatim>\<open>fetchTLE\<close> on the cache \<open>cache\<close>, where \<open>now\<close> is \<^verbatim>\<open>Date.now()\<close> at line 43 and
  \<open>now'\<close> at line 62. It returns the element set or the error thrown, the cache
  afterwards, and the URLs it has requested from the remote source.
\<close>

definition fetchTLE ::
  "tle_cache \<Rightarrow> time \<Rightarrow> remote \<Rightarrow> time \<Rightarrow> jsstring
     \<Rightarrow> (js_error + TLEData) \<times> tle_cache \<times> jsstring list" where
  "fetchTLE cache now rem now' satelliteId =
     (case cacheHit cache now satelliteId of
        Some t \<Rightarrow> (Inr t, cache, [])
      | None \<Rightarrow>
          let url = tleUrl satelliteId in
          (case rem url of
             Inl e \<Rightarrow> (Inl (FailedToFetch e), cache, [url])
           | Inr data \<Rightarrow>
               (case parseTLE data of
                  Inl e \<Rightarrow> (Inl (FailedToFetch e), cache, [url])
                | Inr t \<Rightarrow>
                    (Inr t, cache(satelliteId \<mapsto> \<lparr> tle = t, timestamp = now' \<rparr>), [url]))))"

section \<open>The request handler\<close>

record LocationRequest =
  satelliteId :: "jsstring option"
  lat :: "jsstring option"
  lng :: "jsstring option"

record FormattedPass =
  fStartTime :: jsstring
  fEndTime :: jsstring
  fMaxElevation :: int
  azimuthStart :: int
  azimuthEnd :: int
  fDuration :: int

datatype body =
    ErrorBody jsstring
  | ErrorDetails jsstring js_error
  | PassList "FormattedPass list"

type_synonym response = "nat \<times> body"

text \<open>The calls of the handler that the claims speak of.\<close>

datatype call = FetchTLE jsstring | RemoteGet jsstring | CalculatePasses Observer time time

text \<open>
  What the handler takes from outside: the built-in \<^verbatim>\<open>parseFloat\<close> of the engine,
  the time zone of the host, the satellite library, the remote source, the clock
  (\<open>now1\<close> and \<open>now2\<close> at lines 43 and 62, \<open>now3\<close> at line 158) and the \<^verbatim>\<open>format\<close>
  of date-fns with the pattern of lines 164 and 165.
\<close>

record 'sat env =
  parseFloat :: "jsstring \<Rightarrow> jsnum"
  zone :: timezone
  satellite :: "'sat satlib"
  remoteSource :: remote
  now1 :: time
  now2 :: time
  now3 :: time
  formatDate :: "time \<Rightarrow> jsstring"

text \<open>Line 153: \<^verbatim>\<open>satellite.degreesToRadians(latitude)\<close>.\<close>

fun observerLatitude :: "jsnum \<Rightarrow> jsnum" where
  "observerLatitude (Num d) = Num (degreesToRadians d)"
| "observerLatitude v = v"

text \<open>
  Line 154: \<^verbatim>\<open>((longitude + 180) % 360 - 180) * Math.PI / 180\<close>; the remainder of an
  infinite number is \<^verbatim>\<open>NaN\<close>.
\<close>

fun observerLongitude :: "jsnum \<Rightarrow> jsnum" where
  "observerLongitude (Num d) = Num ((js_rem (d + 180) 360 - 180) * pi / 180)"
| "observerLongitude v = NaN"

definition addHours :: "time \<Rightarrow> int \<Rightarrow> time" where
  "addHours t h = t + h * 3600000"

text \<open>Lines 163 to 170.\<close>

definition formatPass :: "(time \<Rightarrow> jsstring) \<Rightarrow> SatellitePass \<Rightarrow> FormattedPass" where
  "formatPass fmt p =
     \<lparr> fStartTime = fmt (startTime p),
       fEndTime = fmt (endTime p),
       fMaxElevation = mathRound (maxElevation p),
       azimuthStart = mathRound (startAz p),
       azimuthEnd = mathRound (endAz p),
       fDuration = mathRound (duration p / 60) \<rparr>"

text \<open>
  \<^verbatim>\<open>passesPrediction\<close>: the response (\<open>None\<close> when the walk of \<open>calculatePasses\<close>
  does not end), the cache afterwards and the calls made, in order. A field of the
  body that is absent is \<open>None\<close>; \<^verbatim>\<open>!x\<close> holds of an absent and of an empty string.
  An error thrown by \<open>fetchTLE\<close> or by \<open>calculatePasses\<close> reaches the \<^verbatim>\<open>catch\<close> of
  line 173.
\<close>

definition passesPrediction ::
  "'sat env \<Rightarrow> tle_cache \<Rightarrow> LocationRequest \<Rightarrow> response option \<times> tle_cache \<times> call list" where
  "passesPrediction env cache req =
     (case (satelliteId req, lat req, lng req) of
        (Some sid, Some latStr, Some lngStr) \<Rightarrow>
          if sid = [] \<or> latStr = [] \<or> lngStr = []
          then (Some (400, ErrorBody (str ''Missing required parameters'')), cache, [])
          else
            let lati = parseFloat env latStr;
                longi = parseFloat env lngStr
            in if jsLess lati (- 90) \<or> jsGreater lati 90 \<or> jsLess longi (- 180) \<or> jsGreater longi 180
               then (Some (400, ErrorBody (str ''Invalid coordinates'')), cache, [])
               else
                 (case fetchTLE cache (now1 env) (remoteSource env) (now2 env) sid of
                    (Inl err, cache', urls) \<Rightarrow>
                      (Some (500, ErrorDetails (str ''Failed to calculate passes'') err), cache',
                       FetchTLE sid # map RemoteGet urls)
                  | (Inr t, cache', urls) \<Rightarrow>
                      (case twoline2satrec (satellite env) (line1 t) (line2 t) of
                         None \<Rightarrow>
                           (Some (400, ErrorBody (str ''Error parsing TLE data'')), cache',
                            FetchTLE sid # map RemoteGet urls)
                       | Some satrec \<Rightarrow>
                           let observer = \<lparr> latitude = observerLatitude lati,
                                            longitude = observerLongitude longi,
                                            height = Num 0 \<rparr>;
                               startT = now3 env;
                               endT = addHours startT 24
                           in ((case calculatePasses (zone env) (satellite env) satrec observer
                                       startT endT of
                                  None \<Rightarrow> None
                                | Some (Inl err) \<Rightarrow>
                                    Some (500, ErrorDetails (str ''Failed to calculate passes'') err)
                                | Some (Inr passes) \<Rightarrow>
                                    Some (200, PassList (map (formatPass (formatDate env)) passes))),
                               cache',
                               FetchTLE sid # map RemoteGet urls
                                 @ [CalculatePasses observer startT endT])))
      | _ \<Rightarrow> (Some (400, ErrorBody (str ''Missing required parameters'')), cache, []))"

section \<open>Stubs for tests\<close>

text \<open>
  A stub of the library: the sample \<open>k\<close> whole minutes after \<open>t0\<close> has no position
  when \<open>elevs ! k\<close> is \<open>None\<close>, else the propagator returns \<open>k\<close> as a position and the
  converter returns the elevation \<open>elevs ! k\<close>, given in degrees (\<open>0\<close> before \<open>t0\<close>
  and beyond the end of \<open>elevs\<close>), and the raw azimuth \<open>az\<close>.
\<close>

definition stubElevation :: "real option list \<Rightarrow> int \<Rightarrow> real option" where
  "stubElevation elevs k =
     (if 0 \<le> k \<and> nat k < length elevs then elevs ! nat k else Some 0)"

definition stubLib :: "time \<Rightarrow> real option list \<Rightarrow> real \<Rightarrow> unit satlib" where
  "stubLib t0 elevs az =
     \<lparr> twoline2satrec = (\<lambda>l1 l2. Some ()),
       propagate = (\<lambda>s t.
          case stubElevation elevs ((t - t0) div 60000) of
            None \<Rightarrow> None
          | Some e \<Rightarrow> Some (of_int ((t - t0) div 60000), 0, 0)),
       gstime = (\<lambda>t. 0),
       eciToEcf = (\<lambda>p g. p),
       ecfToLookAngles = (\<lambda>obs p.
          \<lparr> elevation = degreesToRadians
               (case stubElevation elevs \<lfloor>fst p\<rfloor> of None \<Rightarrow> 0 | Some e \<Rightarrow> e),
            azimuth = az \<rparr>) \<rparr>"

definition sanFrancisco :: Observer where
  "sanFrancisco =
     \<lparr> latitude = Num (degreesToRadians 37.7749),
       longitude = Num (degreesToRadians (-122.4194)),
       height = Num 0 \<rparr>"

text \<open>A host on UTC.\<close>

definition utcZone :: timezone where
  "utcZone = \<lparr> localTZA = (\<lambda>t isUTC. 0) \<rparr>"

text \<open>
  A host in the zone \<^verbatim>\<open>America/New_York\<close> around the end of daylight saving time on
  1 November 2026 at 06:00 UTC (1793512800000 ms): local time is 4 hours behind UTC
  before that instant and 5 hours behind from it on; the local times from 01:00 to
  02:00 occur twice and are read with the offset before the transition. The other
  transitions of the zone are left out.
\<close>

definition newYorkZone :: timezone where
  "newYorkZone =
     \<lparr> localTZA = (\<lambda>t isUTC.
          if isUTC then (if t < 1793512800000 then - 14400000 else - 18000000)
          else (if t < 1793512800000 - 14400000 then - 14400000 else - 18000000)) \<rparr>"

definition issText :: jsstring where
  "issText = str ''ISS (ZARYA)'' @ [0x0A] @ str ''1 25544U 98067A'' @ [0x0A]
               @ str ''2 25544  51.6400''"

definition issTLE :: TLEData where
  "issTLE = \<lparr> name = str ''ISS (ZARYA)'', line1 = str ''1 25544U 98067A'',
              line2 = str ''2 25544  51.6400'' \<rparr>"

text \<open>A response text cut off after its second line: \<^verbatim>\<open>A\nB\n\<close>.\<close>

definition truncatedText :: jsstring where
  "truncatedText = str ''A'' @ [0x0A] @ str ''B'' @ [0x0A]"

definition truncatedSource :: remote where
  "truncatedSource = (\<lambda>url. Inr truncatedText)"

definition offlineSource :: remote where
  "offlineSource = (\<lambda>url. Inl (FetchRejected (str ''offline'')))"

definition noDataSource :: remote where
  "noDataSource = (\<lambda>url. Inr (str ''No GP data found''))"

definition emptyCache :: tle_cache where
  "emptyCache = Map.empty"

text \<open>
  The values of \<^verbatim>\<open>parseFloat\<close> at the strings that the tests send: \<^verbatim>\<open>91\<close>,
  \<^verbatim>\<open>180\<close> and \<^verbatim>\<open>0\<close> are read as these numbers, and \<^verbatim>\<open>abc\<close>, which has no
  numeric prefix, as \<^verbatim>\<open>NaN\<close>. The tests send no other string; the stub reads
  them as \<^verbatim>\<open>NaN\<close>.
\<close>

definition stubParseFloat :: "jsstring \<Rightarrow> jsnum" where
  "stubParseFloat s =
     (if s = str ''91'' then Num 91
      else if s = str ''180'' then Num 180
      else if s = str ''0'' then Num 0
      else NaN)"

definition stubEnv :: "unit env" where
  "stubEnv =
     \<lparr> parseFloat = stubParseFloat,
       zone = utcZone,
       satellite = stubLib 0 [Some 5, Some 5, Some 15, Some 20, Some 15, Some 5] 0,
       remoteSource = (\<lambda>url. Inr issText),
       now1 = 0, now2 = 0, now3 = 0,
       formatDate = (\<lambda>t. []) \<rparr>"

section \<open>Invariants of the walk\<close>

text \<open>The instants at which the walk from \<open>startT\<close> to \<open>endT\<close> takes a sample.\<close>

inductive_set samples :: "timezone \<Rightarrow> time \<Rightarrow> time \<Rightarrow> time set"
  for tz :: timezone and startT :: time and endT :: time where
  first: "startT \<le> endT \<Longrightarrow> startT \<in> samples tz startT endT"
| later: "t \<in> samples tz startT endT \<Longrightarrow> nextMinute tz t \<le> endT \<Longrightarrow>
          nextMinute tz t \<in> samples tz startT endT"

text \<open>
  A finished pass was opened at a sample above the threshold and closed at a sample
  not above it; its fields are those of the two samples.
\<close>

definition passOk :: "'sat satlib \<Rightarrow> 'sat \<Rightarrow> Observer \<Rightarrow> SatellitePass \<Rightarrow> bool" where
  "passOk lib satrec observer p =
     (10 < maxElevation p \<and>
      (case sampleAt lib satrec observer (startTime p) of
         Inr (Some (e, a)) \<Rightarrow> 10 < e \<and> e \<le> maxElevation p \<and> startAz p = a
       | _ \<Rightarrow> False) \<and>
      (case sampleAt lib satrec observer (endTime p) of
         Inr (Some (e, a)) \<Rightarrow> \<not> 10 < e \<and> endAz p = a
       | _ \<Rightarrow> False) \<and>
      duration p = (of_int (endTime p) - of_int (startTime p)) / 1000)"

definition pendingOk :: "'sat satlib \<Rightarrow> 'sat \<Rightarrow> Observer \<Rightarrow> PendingPass \<Rightarrow> bool" where
  "pendingOk lib satrec observer cp =
     (10 < pMaxElevation cp \<and>
      (case sampleAt lib satrec observer (pStartTime cp) of
         Inr (Some (e, a)) \<Rightarrow> 10 < e \<and> e \<le> pMaxElevation cp \<and> pStartAz cp = a
       | _ \<Rightarrow> False))"

text \<open>
  The state before the sample at \<open>date\<close>: the finished passes and the open pass were
  opened and closed at samples of the walk.
\<close>

definition walkInv ::
  "timezone \<Rightarrow> 'sat satlib \<Rightarrow> 'sat \<Rightarrow> Observer \<Rightarrow> time \<Rightarrow> time \<Rightarrow> time \<Rightarrow> loop_state \<Rightarrow> bool" where
  "walkInv tz lib satrec observer startT endT date st =
     (case st of (passes, currentPass) \<Rightarrow>
        (date \<le> endT \<longrightarrow> date \<in> samples tz startT endT) \<and>
        (\<forall>p \<in> set passes. passOk lib satrec observer p \<and>
                          startTime p \<in> samples tz startT endT \<and>
                          endTime p \<in> samples tz startT endT) \<and>
        (case currentPass of
           None \<Rightarrow> True
         | Some cp \<Rightarrow> pendingOk lib satrec observer cp \<and>
                      pStartTime cp \<in> samples tz startT endT))"

section \<open>Properties of the walk\<close>

lemma walk_step:
  "date \<le> endT \<Longrightarrow> loopBody lib satrec observer date st = Inr st' \<Longrightarrow>
     walk tz lib satrec observer endT date st =
     walk tz lib satrec observer endT (nextMinute tz date) st'"
  by (subst walk.simps) simp

lemma walk_throw:
  "date \<le> endT \<Longrightarrow> loopBody lib satrec observer date st = Inl err \<Longrightarrow>
     walk tz lib satrec observer endT date st = Some (Inl err)"
  by (subst walk.simps) simp

lemma walk_stop:
  "\<not> date \<le> endT \<Longrightarrow> walk tz lib satrec observer endT date st = Some (Inr st)"
  by (subst walk.simps) simp

lemma walk_next:
  "date \<le> endT \<Longrightarrow> loopBody lib satrec observer date st = Inr st' \<Longrightarrow>
   nextMinute tz date = date' \<Longrightarrow>
     walk tz lib satrec observer endT date st = walk tz lib satrec observer endT date' st'"
  by (simp add: walk_step)

lemma loopBody_skip:
  "sampleAt lib satrec observer date = Inr None \<Longrightarrow>
     loopBody lib satrec observer date st = Inr st"
  by (simp add: loopBody_def)

lemma closePass_sel:
  "startTime (closePass cp date az) = pStartTime cp"
  "endTime (closePass cp date az) = date"
  "maxElevation (closePass cp date az) = pMaxElevation cp"
  "startAz (closePass cp date az) = pStartAz cp"
  "endAz (closePass cp date az) = az"
  "duration (closePass cp date az) = (of_int date - of_int (pStartTime cp)) / 1000"
  by (simp_all add: closePass_def)

lemma passOk_closePass:
  assumes "pendingOk lib satrec observer cp"
    and "sampleAt lib satrec observer date = Inr (Some (e, a))" "\<not> 10 < e"
  shows "passOk lib satrec observer (closePass cp date a)"
  using assms
  by (auto simp: passOk_def pendingOk_def closePass_sel split: sum.splits option.splits)

lemma pendingOk_open:
  assumes "sampleAt lib satrec observer date = Inr (Some (e, a))" "10 < e"
  shows "pendingOk lib satrec observer \<lparr> pStartTime = date, pStartAz = a, pMaxElevation = e \<rparr>"
  using assms by (simp add: pendingOk_def)

lemma pendingOk_raise:
  assumes "pendingOk lib satrec observer cp" "pMaxElevation cp < e"
  shows "pendingOk lib satrec observer (cp\<lparr> pMaxElevation := e \<rparr>)"
  using assms by (auto simp: pendingOk_def split: sum.splits option.splits)

lemma loopBody_cases:
  assumes "loopBody lib satrec observer date (ps, cur) = Inr st'"
  obtains
    (skip) "sampleAt lib satrec observer date = Inr None" "st' = (ps, cur)"
  | (opened) e a where "sampleAt lib satrec observer date = Inr (Some (e, a))" "10 < e"
      "cur = None" "st' = (ps, Some \<lparr> pStartTime = date, pStartAz = a, pMaxElevation = e \<rparr>)"
  | (kept) e a cp where "sampleAt lib satrec observer date = Inr (Some (e, a))" "10 < e"
      "cur = Some cp"
      "st' = (ps, Some (if e > js_or (pMaxElevation cp) 0 then cp\<lparr> pMaxElevation := e \<rparr> else cp))"
  | (idle) e a where "sampleAt lib satrec observer date = Inr (Some (e, a))" "\<not> 10 < e"
      "cur = None" "st' = (ps, None)"
  | (closed) e a cp where "sampleAt lib satrec observer date = Inr (Some (e, a))" "\<not> 10 < e"
      "cur = Some cp" "st' = (ps @ [closePass cp date a], None)"
  using assms
  by (auto simp: loopBody_def Let_def split: sum.splits option.splits if_splits prod.splits)

lemma loopBody_inv:
  assumes inv: "walkInv tz lib satrec observer startT endT date st"
    and le: "date \<le> endT"
    and body: "loopBody lib satrec observer date st = Inr st'"
  shows "walkInv tz lib satrec observer startT endT (nextMinute tz date) st'"
proof -
  obtain ps cur where st: "st = (ps, cur)" by (cases st)
  have here: "date \<in> samples tz startT endT"
    using inv le st by (simp add: walkInv_def)
  then have nxt: "nextMinute tz date \<le> endT \<longrightarrow> nextMinute tz date \<in> samples tz startT endT"
    by (auto intro: samples.later)
  have old: "\<forall>p \<in> set ps. passOk lib satrec observer p \<and>
               startTime p \<in> samples tz startT endT \<and> endTime p \<in> samples tz startT endT"
    using inv st by (simp add: walkInv_def)
  have cur: "\<And>cp. cur = Some cp \<Longrightarrow> pendingOk lib satrec observer cp \<and>
               pStartTime cp \<in> samples tz startT endT"
    using inv st by (simp add: walkInv_def)
  from body[unfolded st] show ?thesis
  proof (cases rule: loopBody_cases)
    case skip
    then show ?thesis using nxt old cur
      by (auto simp: walkInv_def split: option.splits)
  next
    case (opened e a)
    then show ?thesis using nxt old here
      by (simp add: walkInv_def pendingOk_open)
  next
    case (kept e a cp)
    have c: "pendingOk lib satrec observer cp" "pStartTime cp \<in> samples tz startT endT"
      using cur[OF kept(3)] by simp_all
    then have pos: "pMaxElevation cp \<noteq> 0" by (auto simp: pendingOk_def)
    show ?thesis using kept nxt old c pos
      by (simp add: walkInv_def js_or_def pendingOk_raise)
  next
    case (idle e a)
    then show ?thesis using nxt old by (simp add: walkInv_def)
  next
    case (closed e a cp)
    have c: "pendingOk lib satrec observer cp" "pStartTime cp \<in> samples tz startT endT"
      using cur[OF closed(3)] by simp_all
    have "passOk lib satrec observer (closePass cp date a)"
      using c(1) closed(1,2) by (rule passOk_closePass)
    then show ?thesis using closed nxt old c(2) here
      by (auto simp: walkInv_def closePass_sel)
  qed
qed

lemma walk_inv:
  assumes "walk tz lib satrec observer endT date st = Some r"
    and "walkInv tz lib satrec observer startT endT date st"
  shows "case r of Inl err \<Rightarrow> True
         | Inr st' \<Rightarrow> \<exists>d. walkInv tz lib satrec observer startT endT d st'"
  using assms
proof (induction rule: walk.raw_induct[rotated 1, consumes 1])
  case (1 walk' tz lib satrec observer endT date st r)
  show ?case
  proof (cases "date \<le> endT")
    case False
    then have "r = Inr st" using "1.hyps" by simp
    then show ?thesis using "1.prems" by auto
  next
    case True
    show ?thesis
    proof (cases "loopBody lib satrec observer date st")
      case (Inl err)
      then have "r = Inl err" using "1.hyps" True by simp
      then show ?thesis by simp
    next
      case (Inr st')
      then have w: "walk' tz lib satrec observer endT (nextMinute tz date) st' = Some r"
        using "1.hyps" True by simp
      have "walkInv tz lib satrec observer startT endT (nextMinute tz date) st'"
        using "1.prems" True Inr by (rule loopBody_inv)
      then show ?thesis using "1.IH"[OF w] by simp
    qed
  qed
qed

lemma walkInv_init: "walkInv tz lib satrec observer startT endT startT ([], None)"
  by (simp add: walkInv_def samples.first)

lemma walk_final:
  assumes "walk tz lib satrec observer endT startT ([], None) = Some (Inr (passes, cur))"
    and "p \<in> set passes"
  shows "passOk lib satrec observer p \<and> startTime p \<in> samples tz startT endT \<and>
         endTime p \<in> samples tz startT endT"
proof -
  have "\<exists>d. walkInv tz lib satrec observer startT endT d (passes, cur)"
    using walk_inv[OF assms(1) walkInv_init] by simp
  then show ?thesis using assms(2) by (auto simp: walkInv_def)
qed

lemma calculatePasses_walk:
  "calculatePasses tz lib satrec observer startT endT = Some (Inr passes) \<longleftrightarrow>
     (\<exists>cur. walk tz lib satrec observer endT startT ([], None) = Some (Inr (passes, cur)))"
  by (auto simp: calculatePasses_def split: option.splits sum.splits)

lemma calculatePasses_ok:
  assumes "calculatePasses tz lib satrec observer startT endT = Some (Inr passes)"
    and "p \<in> set passes"
  shows "passOk lib satrec observer p" "startTime p \<in> samples tz startT endT"
    "endTime p \<in> samples tz startT endT"
proof -
  obtain cur where "walk tz lib satrec observer endT startT ([], None) = Some (Inr (passes, cur))"
    using assms(1) by (auto simp: calculatePasses_walk)
  then have "passOk lib satrec observer p \<and> startTime p \<in> samples tz startT endT \<and>
         endTime p \<in> samples tz startT endT"
    using assms(2) by (rule walk_final)
  then show "passOk lib satrec observer p" "startTime p \<in> samples tz startT endT"
    "endTime p \<in> samples tz startT endT" by simp_all
qed

lemma samples_upper: "t \<in> samples tz startT endT \<Longrightarrow> t \<le> endT"
  by (induction rule: samples.induct) simp_all

lemma samples_lower:
  assumes "t \<in> samples tz startT endT"
    and "\<forall>u \<in> samples tz startT endT. u \<le> nextMinute tz u"
  shows "startT \<le> t"
  using assms by (induction rule: samples.induct) force+

text \<open>On a host whose minutes are 60000 ms the walk ends, unless a sample throws.\<close>

lemma walk_returns:
  assumes step: "\<And>t. nextMinute tz t = t + 60000"
    and ok: "\<And>t st. \<exists>st'. loopBody lib satrec observer t st = Inr st'"
  shows "\<exists>st'. walk tz lib satrec observer endT date st = Some (Inr st')"
proof (induction "nat (endT + 1 - date)" arbitrary: date st rule: less_induct)
  case less
  show ?case
  proof (cases "date \<le> endT")
    case False
    then show ?thesis by (simp add: walk_stop)
  next
    case True
    obtain st1 where b: "loopBody lib satrec observer date st = Inr st1"
      using ok by blast
    have "nat (endT + 1 - (date + 60000)) < nat (endT + 1 - date)"
      using True by simp
    then have "\<exists>st'. walk tz lib satrec observer endT (date + 60000) st1 = Some (Inr st')"
      by (rule less)
    then show ?thesis using True b step by (simp add: walk_step)
  qed
qed

lemma nextMinute_utc: "nextMinute utcZone t = t + 60000"
  by (simp add: nextMinute_def utcOfLocal_def localTime_def utcZone_def)

lemma degreesLat_degreesToRadians:
  assumes "- 90 \<le> d" "d \<le> 90"
  shows "degreesLat (degreesToRadians d) = Inr d"
proof -
  have "(- 90) * pi \<le> d * pi"
    using assms(1) pi_ge_zero by (rule mult_right_mono)
  moreover have "d * pi \<le> 90 * pi"
    using assms(2) pi_ge_zero by (rule mult_right_mono)
  ultimately have "- (90 * pi) \<le> d * pi" "d * pi \<le> 90 * pi"
    by simp_all
  then have "\<not> d * (pi / 180) < - (pi / 2)" "\<not> d * (pi / 180) > pi / 2"
    by simp_all
  then show ?thesis
    by (simp add: degreesLat_def radiansToDegrees_def degreesToRadians_def)
qed

lemma stub_sample:
  assumes "normalizeAzimuth az = Inr a"
    and "case stubElevation elevs k of None \<Rightarrow> True | Some e \<Rightarrow> - 90 \<le> e \<and> e \<le> 90"
  shows "sampleAt (stubLib t0 elevs az) () obs (t0 + 60000 * k) =
     (case stubElevation elevs k of None \<Rightarrow> Inr None | Some e \<Rightarrow> Inr (Some (e, a)))"
  using assms
  by (simp add: sampleAt_def stubLib_def degreesLat_degreesToRadians Let_def split: option.splits)

lemma stub_sample_at:
  assumes "normalizeAzimuth az = Inr a"
    and "(t - t0) div 60000 = k"
    and "case stubElevation elevs k of None \<Rightarrow> True | Some e \<Rightarrow> - 90 \<le> e \<and> e \<le> 90"
  shows "sampleAt (stubLib t0 elevs az) () obs t =
     (case stubElevation elevs k of None \<Rightarrow> Inr None | Some e \<Rightarrow> Inr (Some (e, a)))"
  using assms
  by (simp add: sampleAt_def stubLib_def degreesLat_degreesToRadians Let_def split: option.splits)

lemma normalizeAzimuth_zero: "normalizeAzimuth 0 = Inr 0"
  by (simp add: normalizeAzimuth_def degreesLong_def radiansToDegrees_def js_rem_def js_trunc_def)

lemma walk_unfold:
  "date \<le> endT \<Longrightarrow>
     walk tz lib satrec observer endT date st =
     (case loopBody lib satrec observer date st of
        Inl err \<Rightarrow> Some (Inl err)
      | Inr st' \<Rightarrow> walk tz lib satrec observer endT (nextMinute tz date) st')"
  by (subst walk.simps) simp

lemma nextMinute_newYork:
  "nextMinute newYorkZone 1793516220000 = 1793512680000"
  "nextMinute newYorkZone 1793512680000 = 1793512740000"
  "nextMinute newYorkZone 1793516280000 = 1793512740000"
  "nextMinute newYorkZone 1793512740000 = 1793516400000"
  by (simp_all add: nextMinute_def utcOfLocal_def localTime_def newYorkZone_def)

lemmas stub_eval =
  calculatePasses_def walk_unfold walk_stop loopBody_def sampleAt_def stubLib_def
  stubElevation_def degreesLat_degreesToRadians js_or_def closePass_def Let_def

section \<open>The end-to-end example\<close>

text \<open>
  C1. The stub returns the elevations 5, 5, 15, 20, 15, 5 at the six consecutive
  one-minute samples from \<open>t0\<close>: the host's step from each of these samples is one
  minute, and the azimuth \<open>az\<close> of the stub is one that the normalisation accepts.
  Then \<open>calculatePasses\<close> over the window from \<open>t0\<close> to \<open>t0 + 5 min\<close> returns exactly
  one pass: it starts at \<open>t0 + 2 min\<close>, ends at \<open>t0 + 5 min\<close>, has the maximal
  elevation 20 and lasts 180 seconds.
\<close>

theorem calculatePasses_end_to_end:
  assumes steps: "\<And>k. 0 \<le> k \<Longrightarrow> k \<le> 5 \<Longrightarrow>
                    nextMinute tz (t0 + 60000 * k) = t0 + 60000 * (k + 1)"
    and az: "normalizeAzimuth az = Inr a"
  shows "calculatePasses tz (stubLib t0 [Some 5, Some 5, Some 15, Some 20, Some 15, Some 5] az) ()
           sanFrancisco t0 (t0 + 5 * 60000) =
         Some (Inr [\<lparr> startTime = t0 + 2 * 60000, endTime = t0 + 5 * 60000, maxElevation = 20,
                      startAz = a, endAz = a, duration = 180 \<rparr>])"
proof -
  let ?es = "[Some 5, Some 5, Some 15, Some 20, Some 15, Some 5 :: real option]"
  let ?L = "stubLib t0 ?es az"
  let ?W = "walk tz ?L () sanFrancisco (t0 + 300000)"
  let ?pp = "\<lambda>m. Some \<lparr> pStartTime = t0 + 120000, pStartAz = a, pMaxElevation = m \<rparr>"
  let ?p = "\<lparr> startTime = t0 + 120000, endTime = t0 + 300000, maxElevation = 20,
              startAz = a, endAz = a, duration = 180 \<rparr>"
  have s: "sampleAt ?L () sanFrancisco (t0 + 60000 * k) =
             (case stubElevation ?es k of None \<Rightarrow> Inr None | Some e \<Rightarrow> Inr (Some (e, a)))"
    if "0 \<le> k" "k \<le> 5" for k
  proof -
    have "k \<in> {0, 1, 2, 3, 4, 5}" using that by auto
    then have "case stubElevation ?es k of None \<Rightarrow> True | Some e \<Rightarrow> - 90 \<le> e \<and> e \<le> 90"
      by (auto simp: stubElevation_def)
    with az show ?thesis by (rule stub_sample)
  qed
  have b0: "loopBody ?L () sanFrancisco t0 ([], None) = Inr ([], None)"
    using s[of 0] by (simp add: loopBody_def stubElevation_def)
  have b1: "loopBody ?L () sanFrancisco (t0 + 60000) ([], None) = Inr ([], None)"
    using s[of 1] by (simp add: loopBody_def stubElevation_def)
  have b2: "loopBody ?L () sanFrancisco (t0 + 120000) ([], None) = Inr ([], ?pp 15)"
    using s[of 2] by (simp add: loopBody_def stubElevation_def js_or_def)
  have b3: "loopBody ?L () sanFrancisco (t0 + 180000) ([], ?pp 15) = Inr ([], ?pp 20)"
    using s[of 3] by (simp add: loopBody_def stubElevation_def js_or_def)
  have b4: "loopBody ?L () sanFrancisco (t0 + 240000) ([], ?pp 20) = Inr ([], ?pp 20)"
    using s[of 4] by (simp add: loopBody_def stubElevation_def js_or_def)
  have b5: "loopBody ?L () sanFrancisco (t0 + 300000) ([], ?pp 20) = Inr ([?p], None)"
    using s[of 5] by (simp add: loopBody_def stubElevation_def closePass_def)
  have "?W t0 ([], None) = ?W (t0 + 60000) ([], None)"
    using steps[of 0] by (intro walk_next) (simp_all add: b0)
  also have "\<dots> = ?W (t0 + 120000) ([], None)"
    using steps[of 1] by (intro walk_next) (simp_all add: b1)
  also have "\<dots> = ?W (t0 + 180000) ([], ?pp 15)"
    using steps[of 2] by (intro walk_next) (simp_all add: b2)
  also have "\<dots> = ?W (t0 + 240000) ([], ?pp 20)"
    using steps[of 3] by (intro walk_next) (simp_all add: b3)
  also have "\<dots> = ?W (t0 + 300000) ([], ?pp 20)"
    using steps[of 4] by (intro walk_next) (simp_all add: b4)
  also have "\<dots> = ?W (t0 + 360000) ([?p], None)"
    using steps[of 5] by (intro walk_next) (simp_all add: b5)
  also have "\<dots> = Some (Inr ([?p], None))"
    by (rule walk_stop) simp
  finally show ?thesis
    by (simp add: calculatePasses_def)
qed

theorem calculatePasses_end_to_end_witness:
  "nextMinute utcZone (0 + 60000 * 5) = 0 + 60000 * (5 + 1) \<and>
   normalizeAzimuth 0 = Inr 0 \<and>
   calculatePasses utcZone (stubLib 0 [Some 5, Some 5, Some 15, Some 20, Some 15, Some 5] 0) ()
     sanFrancisco 0 (0 + 5 * 60000) =
   Some (Inr [\<lparr> startTime = 0 + 2 * 60000, endTime = 0 + 5 * 60000, maxElevation = 20,
                startAz = 0, endAz = 0, duration = 180 \<rparr>])"
  using calculatePasses_end_to_end[of utcZone 0 0 0]
  by (simp add: nextMinute_utc normalizeAzimuth_zero)

section \<open>A pass still open at the end of the window\<close>

text \<open>
  When the walk ends, with a pass still open or not, the result is the list of the
  passes finished before: an open pass is dropped. Every returned pass was opened at a
  sample of the walk above 10 degrees and closed at a sample of the walk not above 10
  degrees (\<open>passOk\<close>), and no sample is later than \<open>endT\<close>. On a host whose step
  from a sample never goes back, these samples are not before \<open>startT\<close> either.
\<close>

lemma finished_passes_only:
  assumes "walk tz lib satrec observer endT startT ([], None) = Some (Inr (passes, cur))"
  shows "calculatePasses tz lib satrec observer startT endT = Some (Inr passes) \<and>
         (\<forall>p \<in> set passes.
            passOk lib satrec observer p \<and>
            startTime p \<in> samples tz startT endT \<and> endTime p \<in> samples tz startT endT \<and>
            startTime p \<le> endT \<and> endTime p \<le> endT) \<and>
         ((\<forall>u \<in> samples tz startT endT. u \<le> nextMinute tz u) \<longrightarrow>
          (\<forall>p \<in> set passes. startT \<le> startTime p \<and> startT \<le> endTime p))"
proof -
  have res: "calculatePasses tz lib satrec observer startT endT = Some (Inr passes)"
    using assms by (simp add: calculatePasses_def)
  have ok: "passOk lib satrec observer p \<and> startTime p \<in> samples tz startT endT \<and>
            endTime p \<in> samples tz startT endT" if "p \<in> set passes" for p
    using assms that by (rule walk_final)
  have up: "startTime p \<le> endT \<and> endTime p \<le> endT" if "p \<in> set passes" for p
    using ok[OF that] by (auto dest: samples_upper)
  have lo: "startT \<le> startTime p \<and> startT \<le> endTime p"
    if "p \<in> set passes" "\<forall>u \<in> samples tz startT endT. u \<le> nextMinute tz u" for p
    using ok[OF that(1)] that(2) by (auto dest: samples_lower)
  from res ok up lo show ?thesis by blast
qed

text \<open>On a host on UTC: the pass open at the end of the window is dropped.\<close>

lemma stub_walk_open:
  "walk utcZone (stubLib 0 [Some 15, Some 5, Some 15, Some 20] 0) () sanFrancisco 180000 0
     ([], None) =
   Some (Inr ([\<lparr> startTime = 0, endTime = 60000, maxElevation = 15, startAz = 0,
                 endAz = 0, duration = 60 \<rparr>],
              Some \<lparr> pStartTime = 120000, pStartAz = 0, pMaxElevation = 20 \<rparr>))"
  by (simp add: stub_eval normalizeAzimuth_zero nextMinute_utc)

lemma stub_open_pass_dropped:
  "calculatePasses utcZone (stubLib 0 [Some 15, Some 5, Some 15, Some 20] 0) () sanFrancisco
     0 180000 =
     Some (Inr [\<lparr> startTime = 0, endTime = 60000, maxElevation = 15, startAz = 0,
                  endAz = 0, duration = 60 \<rparr>])"
  using finished_passes_only[OF stub_walk_open] by simp

text \<open>
  C3. The claim asks that every returned pass was closed within the window. The
  program breaks it on a host whose clock is set back: line 86 steps the minute of
  local time. On a host in \<^verbatim>\<open>America/New_York\<close>, for the window from 06:57 to 06:58
  UTC on 1 November 2026, the step from 06:57 UTC, 01:57 local time, leads to 05:58
  UTC, the first 01:58 local time. The pass opened at 06:57 is closed there, 59
  minutes before the start of the window.
\<close>

theorem pass_closed_before_window:
  "calculatePasses newYorkZone (stubLib 1793516220000 [Some 15] 0) () sanFrancisco
     1793516220000 1793516280000 =
   Some (Inr [\<lparr> startTime = 1793516220000, endTime = 1793512680000, maxElevation = 15,
                startAz = 0, endAz = 0, duration = - 3540 \<rparr>]) \<and>
   (1793516220000 :: int) \<le> 1793516280000 \<and>
   \<not> (1793516220000 :: int) \<le> 1793512680000"
  by (simp add: stub_eval normalizeAzimuth_zero nextMinute_newYork)

section \<open>Samples without a position\<close>

text \<open>
  C4. A sample at which the propagator yields no position leaves the state of the walk
  as it is, the open pass and the passes found so far, and the walk goes on with the
  next sample.
\<close>

theorem skipped_sample_keeps_state:
  assumes "propagate lib satrec date = None"
  shows "loopBody lib satrec observer date st = Inr st \<and>
         (date \<le> endT \<longrightarrow>
            walk tz lib satrec observer endT date st =
            walk tz lib satrec observer endT (nextMinute tz date) st)"
proof -
  have "sampleAt lib satrec observer date = Inr None"
    using assms by (simp add: sampleAt_def)
  then have "loopBody lib satrec observer date st = Inr st"
    by (rule loopBody_skip)
  then show ?thesis by (simp add: walk_step)
qed

theorem skipped_sample_keeps_state_witness:
  "propagate (stubLib 0 [Some 15, None, Some 15, Some 5] 0) () 60000 = None \<and>
   loopBody (stubLib 0 [Some 15, None, Some 15, Some 5] 0) () sanFrancisco 60000
     ([], Some \<lparr> pStartTime = 0, pStartAz = 0, pMaxElevation = 15 \<rparr>) =
     Inr ([], Some \<lparr> pStartTime = 0, pStartAz = 0, pMaxElevation = 15 \<rparr>) \<and>
   walk utcZone (stubLib 0 [Some 15, None, Some 15, Some 5] 0) () sanFrancisco 180000 60000
     ([], Some \<lparr> pStartTime = 0, pStartAz = 0, pMaxElevation = 15 \<rparr>) =
   walk utcZone (stubLib 0 [Some 15, None, Some 15, Some 5] 0) () sanFrancisco 180000 120000
     ([], Some \<lparr> pStartTime = 0, pStartAz = 0, pMaxElevation = 15 \<rparr>)"
proof -
  have n: "propagate (stubLib 0 [Some 15, None, Some 15, Some 5] 0) () 60000 = None"
    by (simp add: stubLib_def stubElevation_def)
  show ?thesis
    using n skipped_sample_keeps_state[OF n, of sanFrancisco
        "([], Some \<lparr> pStartTime = 0, pStartAz = 0, pMaxElevation = 15 \<rparr>)" 180000 utcZone]
    by (simp add: nextMinute_utc)
qed

section \<open>Chronological order\<close>

text \<open>
  C7. The claim asks for passes that end no earlier than they start. The program
  breaks it on a host whose clock is set back: line 86 steps the minute of local
  time. On a host in \<^verbatim>\<open>America/New_York\<close>, for the window from 06:58 to 06:59 UTC on
  1 November 2026 (01:58 local time, after the end of daylight saving time), the step
  from 06:58 UTC leads to 05:59 UTC, the first 01:59 local time. A pass opened at the
  first sample and closed at the second ends 59 minutes before it starts.
\<close>

theorem passes_not_chronological:
  "calculatePasses newYorkZone (stubLib 1793516280000 [Some 15] 0) () sanFrancisco
     1793516280000 1793516340000 =
   Some (Inr [\<lparr> startTime = 1793516280000, endTime = 1793512740000, maxElevation = 15,
                startAz = 0, endAz = 0, duration = - 3540 \<rparr>]) \<and>
   (1793516280000 :: int) \<le> 1793516340000 \<and>
   \<not> (1793516280000 :: int) \<le> 1793512740000"
  by (simp add: stub_eval normalizeAzimuth_zero nextMinute_newYork)

section \<open>The maximal elevation of a pass\<close>

text \<open>
  C10. Every pass that \<open>calculatePasses\<close> returns has a maximal elevation above 10
  degrees that is at least the elevation of the sample that opened it, the sample at
  its start time. While a pass is open, a sample never lowers its maximal elevation.
\<close>

theorem maxElevation_above_threshold:
  "(\<forall>passes. calculatePasses tz lib satrec observer startT endT = Some (Inr passes) \<longrightarrow>
      (\<forall>p \<in> set passes.
         10 < maxElevation p \<and>
         (\<exists>e a. sampleAt lib satrec observer (startTime p) = Inr (Some (e, a)) \<and>
                 e \<le> maxElevation p))) \<and>
   (\<forall>passes cp passes' cp'.
      loopBody lib satrec observer date (passes, Some cp) = Inr (passes', Some cp') \<longrightarrow>
      pMaxElevation cp \<le> pMaxElevation cp')"
proof -
  have a: "10 < maxElevation p \<and>
         (\<exists>e a. sampleAt lib satrec observer (startTime p) = Inr (Some (e, a)) \<and>
                 e \<le> maxElevation p)"
    if "calculatePasses tz lib satrec observer startT endT = Some (Inr passes)"
      "p \<in> set passes" for passes p
  proof -
    have "passOk lib satrec observer p" using that by (rule calculatePasses_ok)
    then show ?thesis
      by (auto simp: passOk_def split: sum.splits option.splits)
  qed
  have b: "pMaxElevation cp \<le> pMaxElevation cp'"
    if "loopBody lib satrec observer date (passes, Some cp) = Inr (passes', Some cp')"
    for passes cp passes' cp'
    using that
    by (auto simp: loopBody_def Let_def js_or_def split: sum.splits option.splits if_splits)
  from a b show ?thesis by blast
qed

lemma stub_rising_pass:
  "calculatePasses utcZone (stubLib 0 [Some 15, Some 20, Some 5] 0) () sanFrancisco 0 120000 =
     Some (Inr [\<lparr> startTime = 0, endTime = 120000, maxElevation = 20, startAz = 0,
                  endAz = 0, duration = 120 \<rparr>])"
  by (simp add: stub_eval normalizeAzimuth_zero nextMinute_utc)

theorem maxElevation_above_threshold_witness:
  "calculatePasses utcZone (stubLib 0 [Some 15, Some 20, Some 5] 0) () sanFrancisco 0 120000 =
     Some (Inr [\<lparr> startTime = 0, endTime = 120000, maxElevation = 20, startAz = 0,
                  endAz = 0, duration = 120 \<rparr>]) \<and>
   sampleAt (stubLib 0 [Some 15, Some 20, Some 5] 0) () sanFrancisco 0 = Inr (Some (15, 0)) \<and>
   (10 :: real) < 20 \<and> (15 :: real) \<le> 20 \<and>
   loopBody (stubLib 0 [Some 15, Some 20, Some 5] 0) () sanFrancisco 60000
     ([], Some \<lparr> pStartTime = 0, pStartAz = 0, pMaxElevation = 15 \<rparr>) =
     Inr ([], Some \<lparr> pStartTime = 0, pStartAz = 0, pMaxElevation = 20 \<rparr>)"
  using maxElevation_above_threshold[of utcZone "stubLib 0 [Some 15, Some 20, Some 5] 0" "()"
      sanFrancisco 0 120000 60000]
  by (simp add: stub_rising_pass)
     (simp add: loopBody_def sampleAt_def stubLib_def stubElevation_def
        degreesLat_degreesToRadians normalizeAzimuth_zero js_or_def)

section \<open>The azimuth of a pass\<close>

lemma js_rem_nonneg:
  assumes "0 \<le> x" "0 < y"
  shows "0 \<le> js_rem x y \<and> js_rem x y < y"
proof -
  have q: "\<not> x / y < 0" using assms by (simp add: not_less)
  have lo: "of_int \<lfloor>x / y\<rfloor> * y \<le> x" using assms(2) by (rule floor_divide_lower)
  have hi: "x < (of_int \<lfloor>x / y\<rfloor> + 1) * y" using assms(2) by (rule floor_divide_upper)
  have "js_rem x y = x - y * of_int \<lfloor>x / y\<rfloor>"
    using q by (simp add: js_rem_def js_trunc_def)
  then show ?thesis using lo hi by (simp add: algebra_simps)
qed

lemma degreesLong_Inr:
  assumes "degreesLong w = Inr d"
  shows "- 180 \<le> d \<and> d \<le> 180"
proof -
  have w: "- pi \<le> w" "w \<le> pi" and d: "d = w * (180 / pi)"
    using assms by (auto simp: degreesLong_def radiansToDegrees_def split: if_splits)
  have "(- pi) * (180 / pi) \<le> w * (180 / pi)"
    using w(1) by (rule mult_right_mono) simp
  moreover have "w * (180 / pi) \<le> pi * (180 / pi)"
    using w(2) by (rule mult_right_mono) simp
  ultimately show ?thesis unfolding d by simp
qed

text \<open>
  Where the normalisation of lines 99 to 101 yields a value, the value lies in
  \<open>[0, 360)\<close>; it yields one for every raw azimuth of at least \<open>-\<pi>\<close>. So the azimuths
  of every returned pass lie in \<open>[0, 360)\<close>.
\<close>

lemma normalizeAzimuth_range:
  assumes "normalizeAzimuth raw = Inr d"
  shows "0 \<le> d \<and> d < 360"
proof -
  obtain dd where dd: "degreesLong (js_rem (raw + pi) (2 * pi) - pi) = Inr dd"
    and d: "d = js_rem (dd + 360) 360"
    using assms by (auto simp: normalizeAzimuth_def split: sum.splits)
  have "0 \<le> dd + 360" using degreesLong_Inr[OF dd] by simp
  then have "0 \<le> js_rem (dd + 360) 360 \<and> js_rem (dd + 360) 360 < 360"
    by (rule js_rem_nonneg) simp
  then show ?thesis by (simp add: d)
qed

lemma normalizeAzimuth_defined:
  assumes "- pi \<le> raw"
  shows "\<exists>d. normalizeAzimuth raw = Inr d"
proof -
  have "0 \<le> js_rem (raw + pi) (2 * pi) \<and> js_rem (raw + pi) (2 * pi) < 2 * pi"
    using assms by (intro js_rem_nonneg) simp_all
  then have "\<not> js_rem (raw + pi) (2 * pi) - pi < - pi" "\<not> js_rem (raw + pi) (2 * pi) - pi > pi"
    by simp_all
  then show ?thesis by (simp add: normalizeAzimuth_def degreesLong_def)
qed

lemma sampleAt_azimuth:
  assumes "sampleAt lib satrec observer date = Inr (Some (e, a))"
  shows "\<exists>raw. normalizeAzimuth raw = Inr a"
  using assms by (auto simp: sampleAt_def Let_def split: option.splits sum.splits)

lemma returned_azimuths_in_range:
  assumes "calculatePasses tz lib satrec observer startT endT = Some (Inr passes)"
    and "p \<in> set passes"
  shows "0 \<le> startAz p \<and> startAz p < 360 \<and> 0 \<le> endAz p \<and> endAz p < 360"
proof -
  have ok: "passOk lib satrec observer p" using assms by (rule calculatePasses_ok)
  obtain e a where s: "sampleAt lib satrec observer (startTime p) = Inr (Some (e, a))"
    "startAz p = a"
    using ok by (auto simp: passOk_def split: sum.splits option.splits)
  obtain e' a' where t: "sampleAt lib satrec observer (endTime p) = Inr (Some (e', a'))"
    "endAz p = a'"
    using ok by (auto simp: passOk_def split: sum.splits option.splits)
  obtain r where r: "normalizeAzimuth r = Inr a" using sampleAt_azimuth[OF s(1)] by blast
  obtain r' where r': "normalizeAzimuth r' = Inr a'" using sampleAt_azimuth[OF t(1)] by blast
  show ?thesis
    using normalizeAzimuth_range[OF r] normalizeAzimuth_range[OF r'] s(2) t(2) by simp
qed

text \<open>
  C2. The claim asks for a value in \<open>[0, 360)\<close> for every raw azimuth. The program
  breaks it for raw azimuths below \<open>-\<pi>\<close>: the remainder \<^verbatim>\<open>%\<close> keeps the sign of its
  dividend, so the first step does not wrap them. The raw azimuth \<open>-5\<pi>/2\<close>, the
  direction of 270 degrees, leaves the first step as \<open>-5\<pi>/2\<close>; \<^verbatim>\<open>degreesLong\<close> throws
  on it, and so does \<open>calculatePasses\<close>.
\<close>

theorem azimuth_not_normalized:
  "js_rem (- (5 * pi / 2) + pi) (2 * pi) - pi = - (5 * pi / 2) \<and>
   normalizeAzimuth (- (5 * pi / 2)) = Inl RangeError \<and>
   calculatePasses utcZone (stubLib 0 [Some 15, Some 5] (- (5 * pi / 2))) () sanFrancisco
     0 60000 = Some (Inl RangeError)"
proof -
  have w: "js_rem (- (5 * pi / 2) + pi) (2 * pi) - pi = - (5 * pi / 2)"
    by (simp add: js_rem_def js_trunc_def ceiling_eq_iff)
  have "- (5 * pi / 2) < - pi" by simp
  then have n: "normalizeAzimuth (- (5 * pi / 2)) = Inl RangeError"
    unfolding normalizeAzimuth_def w by (simp add: degreesLong_def)
  show ?thesis
    using w n by (simp add: stub_eval)
qed

section \<open>The cache of element sets\<close>

text \<open>
  C5. When the cache holds an entry for the identifier whose age \<open>now - timestamp\<close> is
  less than 24 hours, \<open>fetchTLE\<close> returns the element set of the entry, requests
  nothing from the remote source and leaves the cache as it is.
\<close>

theorem fetchTLE_cache_hit:
  assumes "cache sid = Some entry"
    and "now - timestamp entry < 24 * 60 * 60 * 1000"
  shows "fetchTLE cache now rem now' sid = (Inr (tle entry), cache, [])"
  using assms by (simp add: fetchTLE_def cacheHit_def TLE_CACHE_DURATION_def)

theorem fetchTLE_cache_hit_witness:
  "(emptyCache(str ''25544'' \<mapsto> \<lparr> tle = issTLE, timestamp = 1000 \<rparr>)) (str ''25544'')
     = Some \<lparr> tle = issTLE, timestamp = 1000 \<rparr> \<and>
   (86400999 :: int) - 1000 < 24 * 60 * 60 * 1000 \<and>
   fetchTLE (emptyCache(str ''25544'' \<mapsto> \<lparr> tle = issTLE, timestamp = 1000 \<rparr>)) 86400999
     offlineSource 86401000 (str ''25544'')
     = (Inr issTLE, emptyCache(str ''25544'' \<mapsto> \<lparr> tle = issTLE, timestamp = 1000 \<rparr>), [])"
  using fetchTLE_cache_hit[of "emptyCache(str ''25544'' \<mapsto> \<lparr> tle = issTLE, timestamp = 1000 \<rparr>)"
      "str ''25544''" "\<lparr> tle = issTLE, timestamp = 1000 \<rparr>" 86400999 offlineSource 86401000]
  by simp

text \<open>
  C6, as the code has it. On a miss or a stale entry, when \<^verbatim>\<open>fetch\<close> or
  \<^verbatim>\<open>response.text()\<close> rejects or the text splits into fewer than three lines,
  \<open>fetchTLE\<close> throws the error that quotes the cause and the cache is as before. A
  text of three or more lines is not checked: its first three lines, trimmed, are
  returned and stored.
\<close>

theorem fetchTLE_failure_keeps_cache:
  assumes "case cache sid of None \<Rightarrow> True
             | Some entry \<Rightarrow> \<not> now - timestamp entry < 24 * 60 * 60 * 1000"
  shows "fetchTLE cache now rem now' sid =
           (case rem (tleUrl sid) of
              Inl e \<Rightarrow> (Inl (FailedToFetch e), cache, [tleUrl sid])
            | Inr data \<Rightarrow>
                if length (splitLines data) < 3
                then (Inl (FailedToFetch TypeErrorUndefined), cache, [tleUrl sid])
                else (Inr \<lparr> name = trim (splitLines data ! 0),
                            line1 = trim (splitLines data ! 1),
                            line2 = trim (splitLines data ! 2) \<rparr>,
                      cache(sid \<mapsto> \<lparr> tle = \<lparr> name = trim (splitLines data ! 0),
                                               line1 = trim (splitLines data ! 1),
                                               line2 = trim (splitLines data ! 2) \<rparr>,
                                      timestamp = now' \<rparr>),
                      [tleUrl sid]))"
proof -
  have miss: "cacheHit cache now sid = None"
    using assms by (auto simp: cacheHit_def TLE_CACHE_DURATION_def split: option.splits)
  show ?thesis
  proof (cases "rem (tleUrl sid)")
    case (Inl e)
    then show ?thesis using miss by (simp add: fetchTLE_def)
  next
    case (Inr data)
    show ?thesis
    proof (cases "length (splitLines data) < 3")
      case True
      then have "parseTLE data = Inl TypeErrorUndefined"
        by (simp add: parseTLE_def lineAt_def Let_def)
      then show ?thesis using miss Inr True by (simp add: fetchTLE_def)
    next
      case False
      then have "splitLines data \<noteq> []" "1 < length (splitLines data)"
        "2 < length (splitLines data)" by auto
      then have "parseTLE data = Inr \<lparr> name = trim (splitLines data ! 0),
                            line1 = trim (splitLines data ! 1),
                            line2 = trim (splitLines data ! 2) \<rparr>"
        by (simp add: parseTLE_def lineAt_def Let_def)
      then show ?thesis using miss Inr False by (simp add: fetchTLE_def)
    qed
  qed
qed

theorem fetchTLE_failure_keeps_cache_witness:
  "fetchTLE emptyCache 5000 offlineSource 6000 (str ''25544'')
     = (Inl (FailedToFetch (FetchRejected (str ''offline''))), emptyCache,
        [tleUrl (str ''25544'')]) \<and>
   length (splitLines (str ''No GP data found'')) = 1 \<and>
   fetchTLE (emptyCache(str ''25544'' \<mapsto> \<lparr> tle = issTLE, timestamp = 0 \<rparr>)) 86400000
     noDataSource 86400001 (str ''25544'')
     = (Inl (FailedToFetch TypeErrorUndefined),
        emptyCache(str ''25544'' \<mapsto> \<lparr> tle = issTLE, timestamp = 0 \<rparr>),
        [tleUrl (str ''25544'')])"
  using fetchTLE_failure_keeps_cache[where cache = emptyCache and sid = "str ''25544''"
      and now = 5000 and rem = offlineSource and now' = 6000]
    fetchTLE_failure_keeps_cache[where
      cache = "emptyCache(str ''25544'' \<mapsto> \<lparr> tle = issTLE, timestamp = 0 \<rparr>)"
      and sid = "str ''25544''" and now = 86400000 and rem = noDataSource
      and now' = 86400001]
  by (simp add: emptyCache_def offlineSource_def noDataSource_def str_def)

text \<open>
  The claim as stated, with a malformed response among the failures, fails: the
  response text \<^verbatim>\<open>A\nB\n\<close>, cut off after its second line, splits into three lines,
  and \<open>fetchTLE\<close> returns and stores an element set whose second line is empty.
\<close>

theorem fetchTLE_failure_counterexample:
  "fetchTLE emptyCache 5000 truncatedSource 6000 (str ''25544'') =
     (Inr \<lparr> name = str ''A'', line1 = str ''B'', line2 = [] \<rparr>,
      emptyCache(str ''25544'' \<mapsto>
        \<lparr> tle = \<lparr> name = str ''A'', line1 = str ''B'', line2 = [] \<rparr>, timestamp = 6000 \<rparr>),
      [tleUrl (str ''25544'')])"
  by (simp add: fetchTLE_def cacheHit_def emptyCache_def truncatedSource_def truncatedText_def
      parseTLE_def lineAt_def trim_def isWhiteSpace_def str_def Let_def)

section \<open>Validation of the coordinates\<close>

lemma loopBody_no_throw:
  assumes "sampleAt lib satrec observer date = Inr s"
  shows "\<exists>st'. loopBody lib satrec observer date st = Inr st'"
  using assms by (auto simp: loopBody_def Let_def split: option.splits prod.splits)

lemma stubElevation_range:
  assumes "\<forall>e. Some e \<in> set elevs \<longrightarrow> - 90 \<le> e \<and> e \<le> 90"
  shows "case stubElevation elevs k of None \<Rightarrow> True | Some e \<Rightarrow> - 90 \<le> e \<and> e \<le> 90"
proof (cases "0 \<le> k \<and> nat k < length elevs")
  case True
  then have mem: "elevs ! nat k \<in> set elevs" by simp
  show ?thesis
  proof (cases "elevs ! nat k")
    case None
    then show ?thesis using True by (simp add: stubElevation_def)
  next
    case (Some e)
    then have "- 90 \<le> e \<and> e \<le> 90" using assms mem by simp
    then show ?thesis using True Some by (simp add: stubElevation_def)
  qed
next
  case False
  then show ?thesis by (auto simp: stubElevation_def)
qed

lemma stub_no_throw:
  assumes "\<forall>e. Some e \<in> set elevs \<longrightarrow> - 90 \<le> e \<and> e \<le> 90"
    and "normalizeAzimuth az = Inr a"
  shows "\<exists>st'. loopBody (stubLib t0 elevs az) () obs t st = Inr st'"
proof -
  have "sampleAt (stubLib t0 elevs az) () obs t =
     (case stubElevation elevs ((t - t0) div 60000) of
        None \<Rightarrow> Inr None | Some e \<Rightarrow> Inr (Some (e, a)))"
    using assms(2) refl stubElevation_range[OF assms(1)] by (rule stub_sample_at)
  then obtain s where "sampleAt (stubLib t0 elevs az) () obs t = Inr s"
    by (auto split: option.splits)
  then show ?thesis by (rule loopBody_no_throw)
qed

text \<open>On the host of the tests the walk of the handler ends with a list of passes.\<close>

lemma stubEnv_returns:
  "\<exists>passes. calculatePasses (zone stubEnv) (satellite stubEnv) () observer startT endT =
     Some (Inr passes)"
proof -
  have "\<exists>st'. walk utcZone (stubLib 0 [Some 5, Some 5, Some 15, Some 20, Some 15, Some 5] 0) ()
          observer endT startT ([], None) = Some (Inr st')"
  proof (rule walk_returns)
    show "nextMinute utcZone t = t + 60000" for t by (rule nextMinute_utc)
    show "\<exists>st'. loopBody (stubLib 0 [Some 5, Some 5, Some 15, Some 20, Some 15, Some 5] 0) ()
            observer t st = Inr st'" for t st
      by (rule stub_no_throw[OF _ normalizeAzimuth_zero]) auto
  qed
  then show ?thesis
    by (auto simp: calculatePasses_def stubEnv_def split: prod.splits)
qed

lemma stubEnv_fetch:
  "fetchTLE emptyCache (now1 stubEnv) (remoteSource stubEnv) (now2 stubEnv) (str ''25544'') =
     (Inr issTLE, emptyCache(str ''25544'' \<mapsto> \<lparr> tle = issTLE, timestamp = 0 \<rparr>),
      [tleUrl (str ''25544'')])"
  by (simp add: fetchTLE_def cacheHit_def emptyCache_def stubEnv_def parseTLE_def issText_def
      issTLE_def lineAt_def trim_def isWhiteSpace_def str_def Let_def)

lemma stubEnv_satrec:
  "twoline2satrec (satellite stubEnv) l1 l2 = Some ()"
  by (simp add: stubEnv_def stubLib_def)

lemma stubParseFloat_values:
  "stubParseFloat (str ''91'') = Num 91"
  "stubParseFloat (str ''180'') = Num 180"
  "stubParseFloat (str ''0'') = Num 0"
  "stubParseFloat (str ''abc'') = NaN"
  by (simp_all add: stubParseFloat_def str_def)

text \<open>
  For a request with the three parameters present, a parsed latitude below \<open>-90\<close> or
  above \<open>90\<close>, or a parsed longitude below \<open>-180\<close> or above \<open>180\<close>, is answered with
  400 and \<^verbatim>\<open>Invalid coordinates\<close>; the cache is as before and neither \<open>fetchTLE\<close> nor
  \<open>calculatePasses\<close> is called.
\<close>

lemma out_of_range_rejected:
  assumes "satelliteId req = Some sid" "lat req = Some latStr" "lng req = Some lngStr"
    and "sid \<noteq> []" "latStr \<noteq> []" "lngStr \<noteq> []"
    and "jsLess (parseFloat env latStr) (- 90) \<or> jsGreater (parseFloat env latStr) 90 \<or>
         jsLess (parseFloat env lngStr) (- 180) \<or> jsGreater (parseFloat env lngStr) 180"
  shows "passesPrediction env cache req =
           (Some (400, ErrorBody (str ''Invalid coordinates'')), cache, [])"
  using assms by (simp add: passesPrediction_def Let_def)

lemma out_of_range_rejected_91:
  "passesPrediction stubEnv emptyCache
     \<lparr> satelliteId = Some (str ''25544''), lat = Some (str ''91''), lng = Some (str ''180'') \<rparr>
     = (Some (400, ErrorBody (str ''Invalid coordinates'')), emptyCache, [])"
proof -
  have "jsGreater (parseFloat stubEnv (str ''91'')) 90"
    by (simp add: stubEnv_def stubParseFloat_values)
  moreover have "str ''25544'' \<noteq> []" "str ''91'' \<noteq> []" "str ''180'' \<noteq> []"
    by (simp_all add: str_def)
  ultimately show ?thesis
    using out_of_range_rejected[of
        "\<lparr> satelliteId = Some (str ''25544''), lat = Some (str ''91''),
           lng = Some (str ''180'') \<rparr>"
        "str ''25544''" "str ''91''" "str ''180''" stubEnv emptyCache]
    by simp
qed

text \<open>
  C8. The claim asks that a request whose parsed latitude is outside \<open>[-90, 90]\<close> be
  answered with \<^verbatim>\<open>Invalid coordinates\<close>. The program breaks it for a latitude that is
  not a number: the comparisons of line 139 are all false of \<^verbatim>\<open>NaN\<close>. The request
  with the latitude \<^verbatim>\<open>abc\<close> and the longitude \<^verbatim>\<open>180\<close> is answered with 200, after
  calling \<open>fetchTLE\<close> and \<open>calculatePasses\<close>.
\<close>

theorem nan_latitude_not_rejected:
  "parseFloat stubEnv (str ''abc'') = NaN \<and>
   \<not> inInterval (parseFloat stubEnv (str ''abc'')) (- 90) 90 \<and>
   map_option fst (fst (passesPrediction stubEnv emptyCache
     \<lparr> satelliteId = Some (str ''25544''), lat = Some (str ''abc''),
        lng = Some (str ''180'') \<rparr>)) = Some 200 \<and>
   snd (snd (passesPrediction stubEnv emptyCache
     \<lparr> satelliteId = Some (str ''25544''), lat = Some (str ''abc''),
        lng = Some (str ''180'') \<rparr>))
     = [FetchTLE (str ''25544''), RemoteGet (tleUrl (str ''25544'')),
        CalculatePasses \<lparr> latitude = NaN, longitude = observerLongitude (Num 180),
                          height = Num 0 \<rparr> 0 86400000]"
proof -
  have p: "parseFloat stubEnv (str ''abc'') = NaN" "parseFloat stubEnv (str ''180'') = Num 180"
    by (simp_all add: stubEnv_def stubParseFloat_values)
  have ne: "str ''25544'' \<noteq> []" "str ''abc'' \<noteq> []" "str ''180'' \<noteq> []"
    by (simp_all add: str_def)
  obtain passes where c: "calculatePasses (zone stubEnv) (satellite stubEnv) ()
      \<lparr> latitude = NaN, longitude = observerLongitude (Num 180), height = Num 0 \<rparr>
      (now3 stubEnv) (addHours (now3 stubEnv) 24) = Some (Inr passes)"
    using stubEnv_returns by blast
  have n: "now3 stubEnv = 0" "addHours 0 24 = 86400000"
    by (simp_all add: stubEnv_def addHours_def)
  show ?thesis
    using p ne c n
    by (simp add: passesPrediction_def stubEnv_fetch stubEnv_satrec Let_def
        del: observerLongitude.simps)
qed

section \<open>Coordinates that are not numbers\<close>

text \<open>
  C9. A coordinate that \<^verbatim>\<open>parseFloat\<close> reads as \<^verbatim>\<open>NaN\<close> is not rejected: the
  comparisons of \<^verbatim>\<open>NaN\<close> against the bounds are false. For a request with the three
  parameters whose latitude or longitude is \<^verbatim>\<open>NaN\<close>, the other one being
  \<^verbatim>\<open>NaN\<close> too or inside its bounds, the response is not \<^verbatim>\<open>Invalid coordinates\<close>,
  \<open>fetchTLE\<close> is called, and when the element set is fetched and compiled
  \<open>calculatePasses\<close> is called with the observer made from these coordinates.
\<close>

theorem nan_passes_validation:
  assumes "satelliteId req = Some sid" "lat req = Some latStr" "lng req = Some lngStr"
    and "sid \<noteq> []" "latStr \<noteq> []" "lngStr \<noteq> []"
    and "parseFloat env latStr = NaN \<or> parseFloat env lngStr = NaN"
    and "parseFloat env latStr = NaN \<or>
         (\<exists>x. parseFloat env latStr = Num x \<and> - 90 \<le> x \<and> x \<le> 90)"
    and "parseFloat env lngStr = NaN \<or>
         (\<exists>x. parseFloat env lngStr = Num x \<and> - 180 \<le> x \<and> x \<le> 180)"
  shows "\<not> jsLess NaN (- 90) \<and> \<not> jsGreater NaN 90 \<and>
         \<not> jsLess NaN (- 180) \<and> \<not> jsGreater NaN 180 \<and>
         fst (passesPrediction env cache req) \<noteq>
           Some (400, ErrorBody (str ''Invalid coordinates'')) \<and>
         (\<exists>calls. snd (snd (passesPrediction env cache req)) = FetchTLE sid # calls) \<and>
         (\<forall>t cache' urls satrec.
            fetchTLE cache (now1 env) (remoteSource env) (now2 env) sid = (Inr t, cache', urls) \<longrightarrow>
            twoline2satrec (satellite env) (line1 t) (line2 t) = Some satrec \<longrightarrow>
            snd (snd (passesPrediction env cache req)) =
              FetchTLE sid # map RemoteGet urls @
                [CalculatePasses \<lparr> latitude = observerLatitude (parseFloat env latStr),
                                   longitude = observerLongitude (parseFloat env lngStr),
                                   height = Num 0 \<rparr> (now3 env) (addHours (now3 env) 24)])"
proof -
  have latOk: "\<not> jsLess (parseFloat env latStr) (- 90) \<and> \<not> jsGreater (parseFloat env latStr) 90"
    using assms(8) by auto
  have lngOk: "\<not> jsLess (parseFloat env lngStr) (- 180) \<and> \<not> jsGreater (parseFloat env lngStr) 180"
    using assms(9) by auto
  have ne: "str ''Invalid coordinates'' \<noteq> str ''Error parsing TLE data''"
    by (simp add: str_def)
  show ?thesis
    using assms(1-6) latOk lngOk ne
    by (auto simp: passesPrediction_def Let_def split: prod.splits sum.splits option.splits)
qed

theorem nan_passes_validation_witness:
  "parseFloat stubEnv (str ''abc'') = NaN \<and> parseFloat stubEnv (str ''0'') = Num 0 \<and>
   map_option fst (fst (passesPrediction stubEnv emptyCache
     \<lparr> satelliteId = Some (str ''25544''), lat = Some (str ''abc''), lng = Some (str ''0'') \<rparr>))
     = Some 200 \<and>
   snd (snd (passesPrediction stubEnv emptyCache
     \<lparr> satelliteId = Some (str ''25544''), lat = Some (str ''abc''), lng = Some (str ''0'') \<rparr>))
     = [FetchTLE (str ''25544''), RemoteGet (tleUrl (str ''25544'')),
        CalculatePasses \<lparr> latitude = NaN, longitude = Num 0, height = Num 0 \<rparr> 0 86400000]"
proof -
  have p: "parseFloat stubEnv (str ''abc'') = NaN" "parseFloat stubEnv (str ''0'') = Num 0"
    by (simp_all add: stubEnv_def stubParseFloat_values)
  have ne: "str ''25544'' \<noteq> []" "str ''abc'' \<noteq> []" "str ''0'' \<noteq> []"
    by (simp_all add: str_def)
  have l: "observerLongitude (Num 0) = Num 0"
    by (simp add: js_rem_def js_trunc_def)
  obtain passes where c: "calculatePasses (zone stubEnv) (satellite stubEnv) ()
      \<lparr> latitude = NaN, longitude = Num 0, height = Num 0 \<rparr>
      (now3 stubEnv) (addHours (now3 stubEnv) 24) = Some (Inr passes)"
    using stubEnv_returns by blast
  have n: "now3 stubEnv = 0" "addHours 0 24 = 86400000"
    by (simp_all add: stubEnv_def addHours_def)
  show ?thesis
    using nan_passes_validation[of
        "\<lparr> satelliteId = Some (str ''25544''), lat = Some (str ''abc''), lng = Some (str ''0'') \<rparr>"
        "str ''25544''" "str ''abc''" "str ''0''" stubEnv emptyCache] p ne c n
    by (simp add: passesPrediction_def stubEnv_fetch stubEnv_satrec l Let_def
        del: observerLongitude.simps)
qed

end
